theory Spec2Isabelle
  imports Complex_Main "HOL-Library.Char_ord" "HOL-Library.List_Lexorder"
begin

section \<open>Values and exceptions\<close>

text \<open>
  The script \<open>bellabeat_pdf_generation_code.py\<close> works on pandas columns of 64-bit
  integers (the raw measurements) and of 64-bit floats (every mean, quotient and
  percentage). A float is modelled by the value it denotes: an exact rational, or one of
  the three special values that pandas produces instead of raising. Rounding of the
  binary representation is not part of the model.
\<close>

datatype fval = Num rat | NaN | PosInf | NegInf

text \<open>
  The exceptions that the modelled statements raise: Python's built-in \<open>NameError\<close>
  (a name that is bound in no enclosing scope), \<open>KeyError\<close> (a label that a Series
  does not hold) and \<open>ValueError\<close> (\<open>NaT.strftime\<close>). The string is the exception's
  argument.
\<close>

datatype error = NameError string | KeyError string | ValueError string

text \<open>Python's \<open>x < c\<close> for a float \<open>x\<close> and a finite constant \<open>c\<close>: every comparison
  with NaN is false.\<close>

fun lt :: "fval \<Rightarrow> rat \<Rightarrow> bool" where
  "lt (Num q) c = (q < c)"
| "lt NaN c = False"
| "lt PosInf c = False"
| "lt NegInf c = True"

section \<open>Step 1: loading and feature engineering\<close>

text \<open>
  \<open>classify_activity_level\<close> (lines 26 to 34), the function nested in
  \<open>load_and_clean_data\<close>. Its argument is a Python number: an integer step count \<open>s\<close>
  is \<open>Num (of_int s)\<close>.
\<close>

definition classify_activity_level :: "fval \<Rightarrow> string" where
  "classify_activity_level steps =
     (if lt steps 5000 then ''Sedentary''
      else if lt steps 7500 then ''Lightly Active''
      else if lt steps 10000 then ''Fairly Active''
      else ''Very Active'')"


text \<open>
  One row of the table that \<open>pd.read_csv\<close> and \<open>pd.to_datetime\<close> (lines 20 and 23)
  deliver: the raw columns. \<open>ActivityDate\<close> is a naive calendar date, held as the number
  of days since 1970-01-01; the integer columns are 64-bit integers far from their bounds.
  The column \<open>Id\<close> is written \<open>Id_col\<close>.
\<close>

record raw_record =
  Id_col :: int
  ActivityDate :: int
  TotalSteps :: int
  Calories :: int
  VeryActiveMinutes :: int
  FairlyActiveMinutes :: int
  LightlyActiveMinutes :: int
  SedentaryMinutes :: int

text \<open>A row after line 40: the raw columns and the five derived ones.\<close>

record activity_record = raw_record +
  ActivityLevel :: string
  DayOfWeek :: string
  TotalActiveMinutes :: int
  ActivityPercentage :: fval
  IsWeekend :: bool

text \<open>\<open>Series.dt.day_name()\<close>: 1970-01-01 was a Thursday.\<close>

definition day_name :: "int \<Rightarrow> string" where
  "day_name d =
     [''Monday'', ''Tuesday'', ''Wednesday'', ''Thursday'', ''Friday'', ''Saturday'', ''Sunday'']
       ! nat ((d + 3) mod 7)"

text \<open>
  The quotient of two integer columns (line 39): pandas divides element by element as
  floats and raises nothing; \<open>0 / 0\<close> is NaN and \<open>x / 0\<close> is an infinity with the sign
  of \<open>x\<close>.
\<close>

definition truediv :: "int \<Rightarrow> int \<Rightarrow> fval" where
  "truediv a b =
     (if b = 0 then (if a = 0 then NaN else if 0 < a then PosInf else NegInf)
      else Num (of_int a / of_int b))"

text \<open>A float column times, or divided by, a positive literal (\<open>* 100\<close>, \<open>/ 60\<close>).\<close>

fun fmul :: "fval \<Rightarrow> rat \<Rightarrow> fval" where
  "fmul (Num q) c = Num (q * c)"
| "fmul NaN c = NaN"
| "fmul PosInf c = PosInf"
| "fmul NegInf c = NegInf"

fun fdiv :: "fval \<Rightarrow> rat \<Rightarrow> fval" where
  "fdiv (Num q) c = Num (q / c)"
| "fdiv NaN c = NaN"
| "fdiv PosInf c = PosInf"
| "fdiv NegInf c = NegInf"

text \<open>
  Lines 36 to 40 on one row. The source assigns whole columns one after the other; each
  new column is computed row by row from columns assigned before it.
\<close>

definition derive :: "raw_record \<Rightarrow> activity_record" where
  "derive r =
     (let level = classify_activity_level (Num (of_int (TotalSteps r)));
          day = day_name (ActivityDate r);
          active = VeryActiveMinutes r + FairlyActiveMinutes r + LightlyActiveMinutes r;
          percentage = fmul (truediv active (active + SedentaryMinutes r)) 100;
          weekend = (day \<in> set [''Saturday'', ''Sunday''])
      in \<lparr>Id_col = Id_col r, ActivityDate = ActivityDate r, TotalSteps = TotalSteps r,
          Calories = Calories r, VeryActiveMinutes = VeryActiveMinutes r,
          FairlyActiveMinutes = FairlyActiveMinutes r,
          LightlyActiveMinutes = LightlyActiveMinutes r,
          SedentaryMinutes = SedentaryMinutes r,
          ActivityLevel = level, DayOfWeek = day, TotalActiveMinutes = active,
          ActivityPercentage = percentage, IsWeekend = weekend\<rparr>)"

text \<open>
  \<open>load_and_clean_data\<close> (lines 17 to 42), from the parsed table on: no row is dropped,
  added or reordered.
\<close>

definition load_and_clean_data :: "raw_record list \<Rightarrow> activity_record list" where
  "load_and_clean_data raw = map derive raw"

section \<open>Step 2: analysis\<close>

subsection \<open>The pandas operations that the aggregator calls\<close>

text \<open>A Series: its labels, in order, each with its float value.\<close>

type_synonym 'k series = "('k \<times> fval) list"

text \<open>\<open>Series.mean()\<close> of an integer column; NaN when the column is empty.\<close>

definition mean :: "int list \<Rightarrow> fval" where
  "mean xs = (if xs = [] then NaN else Num (of_int (sum_list xs) / of_nat (length xs)))"

text \<open>\<open>Series.nunique()\<close>.\<close>

definition nunique :: "'a list \<Rightarrow> nat" where
  "nunique xs = length (remdups xs)"

text \<open>
  \<open>Series.value_counts(normalize=True)\<close>: one entry for each value that occurs, with
  its share of the entries, the most frequent first. A value that does not occur has no
  entry. Among equally frequent values the model keeps the order of first occurrence.
\<close>

definition value_counts_normalize :: "'a list \<Rightarrow> 'a series" where
  "value_counts_normalize xs =
     map (\<lambda>l. (l, Num (of_nat (count_list xs l) / of_nat (length xs))))
       (sort_key (\<lambda>l. - int (count_list xs l)) (rev (remdups (rev xs))))"

text \<open>A Series times a positive literal.\<close>

definition series_mul :: "'k series \<Rightarrow> rat \<Rightarrow> 'k series" where
  "series_mul s c = map (\<lambda>(l, v). (l, fmul v c)) s"

text \<open>
  \<open>df.groupby(key)[col].mean()\<close>: one entry for each key that occurs, the keys in
  ascending order, with the mean of the column over the rows of that key.
\<close>

definition groupby_mean :: "('r \<Rightarrow> 'k::linorder) \<Rightarrow> ('r \<Rightarrow> int) \<Rightarrow> 'r list \<Rightarrow> 'k series" where
  "groupby_mean key col df =
     map (\<lambda>k. (k, mean (map col (filter (\<lambda>r. key r = k) df))))
       (sort (remdups (map key df)))"

text \<open>\<open>Series.reindex(labels)\<close>: exactly the given labels in the given order; a label
  that the Series does not hold gets NaN.\<close>

definition reindex :: "'k list \<Rightarrow> 'k series \<Rightarrow> 'k series" where
  "reindex labels s =
     map (\<lambda>l. (l, case map_of s l of None \<Rightarrow> NaN | Some v \<Rightarrow> v)) labels"

text \<open>\<open>Series.apply(f)\<close>.\<close>

definition apply_series :: "(fval \<Rightarrow> 'b) \<Rightarrow> 'k series \<Rightarrow> ('k \<times> 'b) list" where
  "apply_series f s = map (\<lambda>(k, v). (k, f v)) s"

text \<open>Float addition, and the sum of the values of a Series.\<close>

fun fadd :: "fval \<Rightarrow> fval \<Rightarrow> fval" where
  "fadd (Num a) (Num b) = Num (a + b)"
| "fadd NaN y = NaN"
| "fadd x NaN = NaN"
| "fadd PosInf NegInf = NaN"
| "fadd NegInf PosInf = NaN"
| "fadd PosInf y = PosInf"
| "fadd x PosInf = PosInf"
| "fadd NegInf y = NegInf"
| "fadd x NegInf = NegInf"

definition series_sum :: "'k series \<Rightarrow> fval" where
  "series_sum s = foldr (\<lambda>(l, v) acc. fadd v acc) s (Num 0)"


subsection \<open>Name resolution\<close>

text \<open>
  A name that a function body reads without assigning it is looked up, when the statement
  runs, among the names bound at module level and then among the built-in names; a name
  bound only inside another function is not found. The script binds the following names
  at module level before it calls \<open>analyze_data\<close> at line 87 (the imports of lines 5 to
  11, the two function definitions, and \<open>df\<close> at line 45). The only definition of
  \<open>classify_activity_level\<close> is the one at line 26, inside \<open>load_and_clean_data\<close>:
  it binds a local name of that function.
\<close>

definition module_level_names :: "string list" where
  "module_level_names =
     [''pd'', ''np'', ''plt'', ''sns'', ''datetime'', ''PdfPages'', ''warnings'',
      ''load_and_clean_data'', ''df'', ''analyze_data'']"

definition load_and_clean_data_locals :: "string list" where
  "load_and_clean_data_locals = [''file_path'', ''df'', ''classify_activity_level'']"

text \<open>The built-in names that the script uses.\<close>

definition builtin_names :: "string list" where
  "builtin_names = [''print'', ''len'', ''int'', ''zip'', ''enumerate'']"

text \<open>
  Reading the global name \<open>n\<close>; \<open>obj\<close> is the object that the script's one definition
  of \<open>n\<close> creates.
\<close>

definition load_global :: "string \<Rightarrow> 'a \<Rightarrow> error + 'a" where
  "load_global n obj =
     (if n \<in> set (module_level_names @ builtin_names) then Inr obj else Inl (NameError n))"

subsection \<open>The aggregator\<close>

text \<open>The dictionary under the key \<open>basic_stats\<close>. The two dates of \<open>date_range\<close> are
  kept as dates; their rendering by \<open>strftime\<close> is left out.\<close>

record stats =
  total_records :: nat
  unique_users :: nat
  date_range :: "int \<times> int"
  avg_steps :: fval
  avg_calories :: fval
  avg_sedentary_hours :: fval

text \<open>The dictionary \<open>analysis_results\<close> that line 85 returns: its five keys.\<close>

record results =
  basic_stats :: stats
  activity_distribution :: "string series"
  user_activity_levels :: "string series"
  weekly_patterns :: "string series"
  weekend_comparison :: "(bool \<times> fval \<times> fval \<times> fval) list"

text \<open>Line 66, as the value of the expression on a table.\<close>

definition activity_distribution_of :: "activity_record list \<Rightarrow> string series" where
  "activity_distribution_of df =
     series_mul (value_counts_normalize (map ActivityLevel df)) 100"

text \<open>
  Lines 69 and 70, as values. The receiver of \<open>apply\<close>, the mean step count of each
  user, is evaluated first, then the argument; \<open>f\<close> is the function that the argument
  denotes.
\<close>

definition user_means_of :: "activity_record list \<Rightarrow> int series" where
  "user_means_of df = groupby_mean Id_col TotalSteps df"

definition user_stats_of :: "(fval \<Rightarrow> string) \<Rightarrow> activity_record list \<Rightarrow> (int \<times> string) list" where
  "user_stats_of f df = apply_series f (user_means_of df)"

definition user_activity_levels_of :: "(fval \<Rightarrow> string) \<Rightarrow> activity_record list \<Rightarrow> string series" where
  "user_activity_levels_of f df =
     series_mul (value_counts_normalize (map snd (user_stats_of f df))) 100"

text \<open>Lines 73 and 74, as a value.\<close>

definition day_order :: "string list" where
  "day_order =
     [''Monday'', ''Tuesday'', ''Wednesday'', ''Thursday'', ''Friday'', ''Saturday'', ''Sunday'']"

definition weekly_patterns_of :: "activity_record list \<Rightarrow> string series" where
  "weekly_patterns_of df = reindex day_order (groupby_mean DayOfWeek TotalSteps df)"

text \<open>Lines 78 to 82, as a value: one row for each value of \<open>IsWeekend\<close> that occurs,
  \<open>False\<close> first, with the three means.\<close>

definition weekend_comparison_of :: "activity_record list \<Rightarrow> (bool \<times> fval \<times> fval \<times> fval) list" where
  "weekend_comparison_of df =
     map (\<lambda>((k, steps), (_, very), (_, sedentary)). (k, steps, very, sedentary))
       (zip (groupby_mean IsWeekend TotalSteps df)
          (zip (groupby_mean IsWeekend VeryActiveMinutes df)
             (groupby_mean IsWeekend SedentaryMinutes df)))"

subsection \<open>The table as an object that caller and callee share\<close>

text \<open>
  Line 87 passes the module-level \<open>df\<close> to \<open>analyze_data\<close>. Inside the call \<open>df\<close> is
  that same object, so a statement that assigned to it would change the table of the
  caller. The script reaches a table through four operations; each is given with the
  value it returns and with the table as it leaves it. \<open>len(df)\<close>, \<open>df[c]\<close> and
  \<open>df.groupby(key)\<close> build a new object from the table: the number of rows, a Series
  with the values of one column, and the rows of each key, the keys in ascending order.
  \<open>df[c] = values\<close>, the form of lines 23 and 36 to 40, writes the values into the
  column of the table itself.
\<close>

definition len_df :: "'r list \<Rightarrow> nat \<times> 'r list" where
  "len_df df = (length df, df)"

definition column :: "('r \<Rightarrow> 'v) \<Rightarrow> 'r list \<Rightarrow> 'v list \<times> 'r list" where
  "column c df = (map c df, df)"

definition groupby :: "('r \<Rightarrow> 'k::linorder) \<Rightarrow> 'r list \<Rightarrow> ('k \<times> 'r list) list \<times> 'r list" where
  "groupby key df =
     (map (\<lambda>k. (k, filter (\<lambda>r. key r = k) df)) (sort (remdups (map key df))), df)"

definition setitem :: "('r \<Rightarrow> 'v \<Rightarrow> 'r) \<Rightarrow> 'v list \<Rightarrow> 'r list \<Rightarrow> (error + unit) \<times> 'r list" where
  "setitem update vals df =
     (if length vals = length df
      then (Inr (), map (\<lambda>(r, v). update r v) (zip df vals))
      else (Inl (ValueError ''Length of values does not match length of index''), df))"

text \<open>
  Statements in sequence: each statement gets the table as the one before left it, and
  the first exception ends the sequence. \<open>value_of\<close> is an operation that raises nothing,
  \<open>outcome_of\<close> an evaluation that does not touch the table.
\<close>

definition then_do ::
  "('s \<Rightarrow> (error + 'a) \<times> 's) \<Rightarrow> ('a \<Rightarrow> 's \<Rightarrow> (error + 'b) \<times> 's) \<Rightarrow> 's \<Rightarrow> (error + 'b) \<times> 's" where
  "then_do m f s = (case m s of (Inl e, s') \<Rightarrow> (Inl e, s') | (Inr x, s') \<Rightarrow> f x s')"

definition value_of :: "('s \<Rightarrow> 'a \<times> 's) \<Rightarrow> 's \<Rightarrow> (error + 'a) \<times> 's" where
  "value_of m s = (case m s of (x, s') \<Rightarrow> (Inr x, s'))"

definition outcome_of :: "error + 'a \<Rightarrow> 's \<Rightarrow> (error + 'a) \<times> 's" where
  "outcome_of r s = (r, s)"

subsection \<open>The statements of the aggregator\<close>

text \<open>
  \<open>Series.min()\<close> and \<open>Series.max()\<close> of a date column: \<open>NaT\<close>, here \<open>None\<close>, when the
  column is empty. \<open>strftime\<close> of \<open>NaT\<close> raises \<open>ValueError\<close>.
\<close>

definition date_min :: "int list \<Rightarrow> int option" where
  "date_min ds = (case ds of [] \<Rightarrow> None | d # rest \<Rightarrow> Some (fold min rest d))"

definition date_max :: "int list \<Rightarrow> int option" where
  "date_max ds = (case ds of [] \<Rightarrow> None | d # rest \<Rightarrow> Some (fold max rest d))"

definition strftime :: "int option \<Rightarrow> error + int" where
  "strftime d =
     (case d of
        None \<Rightarrow> Inl (ValueError ''NaTType does not support strftime'')
      | Some day \<Rightarrow> Inr day)"

text \<open>Lines 56 to 63: the entries of the dictionary literal, from the first to the last;
  in the f-string of line 59 the minimum is formatted before the column is read again
  for the maximum.\<close>

definition basic_stats_step :: "activity_record list \<Rightarrow> (error + stats) \<times> activity_record list" where
  "basic_stats_step =
     then_do (value_of len_df) (\<lambda>total.
     then_do (value_of (column Id_col)) (\<lambda>ids.
     then_do (value_of (column ActivityDate)) (\<lambda>dates.
     then_do (outcome_of (strftime (date_min dates))) (\<lambda>first.
     then_do (value_of (column ActivityDate)) (\<lambda>dates'.
     then_do (outcome_of (strftime (date_max dates'))) (\<lambda>last.
     then_do (value_of (column TotalSteps)) (\<lambda>steps.
     then_do (value_of (column Calories)) (\<lambda>calories.
     then_do (value_of (column SedentaryMinutes)) (\<lambda>sedentary.
     outcome_of (Inr \<lparr>total_records = total,
                      unique_users = nunique ids,
                      date_range = (first, last),
                      avg_steps = mean steps,
                      avg_calories = mean calories,
                      avg_sedentary_hours = fdiv (mean sedentary) 60\<rparr>))))))))))"

text \<open>Line 66.\<close>

definition activity_distribution_step ::
  "activity_record list \<Rightarrow> (error + string series) \<times> activity_record list" where
  "activity_distribution_step =
     then_do (value_of (column ActivityLevel)) (\<lambda>levels.
     outcome_of (Inr (series_mul (value_counts_normalize levels) 100)))"

text \<open>\<open>df.groupby(key)[col].mean()\<close> on the groups that \<open>groupby\<close> returned.\<close>

definition group_means :: "('r \<Rightarrow> int) \<Rightarrow> ('k \<times> 'r list) list \<Rightarrow> 'k series" where
  "group_means col groups = map (\<lambda>(k, rows). (k, mean (map col rows))) groups"

text \<open>Line 69, the receiver of \<open>apply\<close>.\<close>

definition user_means_step ::
  "activity_record list \<Rightarrow> (error + int series) \<times> activity_record list" where
  "user_means_step =
     then_do (value_of (groupby Id_col)) (\<lambda>users.
     outcome_of (Inr (group_means TotalSteps users)))"

text \<open>Lines 73 and 74.\<close>

definition weekly_patterns_step ::
  "activity_record list \<Rightarrow> (error + string series) \<times> activity_record list" where
  "weekly_patterns_step =
     then_do (value_of (groupby DayOfWeek)) (\<lambda>days.
     outcome_of (Inr (reindex day_order (group_means TotalSteps days))))"

text \<open>Lines 78 to 82.\<close>

definition weekend_comparison_step ::
  "activity_record list \<Rightarrow> (error + (bool \<times> fval \<times> fval \<times> fval) list) \<times> activity_record list" where
  "weekend_comparison_step =
     then_do (value_of (groupby IsWeekend)) (\<lambda>parts.
     outcome_of (Inr (map (\<lambda>(k, rows). (k, mean (map TotalSteps rows),
                                   mean (map VeryActiveMinutes rows),
                                   mean (map SedentaryMinutes rows))) parts)))"

text \<open>
  \<open>analyze_data\<close> (lines 51 to 85): the outcome of the call, an exception or the
  returned dictionary, and the table as the call leaves it. At line 69 the argument of
  \<open>apply\<close> is the global name \<open>classify_activity_level\<close>; line 70 works on the Series
  that \<open>apply\<close> returned.
\<close>

definition analyze_data :: "activity_record list \<Rightarrow> (error + results) \<times> activity_record list" where
  "analyze_data =
     then_do basic_stats_step (\<lambda>stats.
     then_do activity_distribution_step (\<lambda>distribution.
     then_do user_means_step (\<lambda>user_means.
     then_do (outcome_of (load_global ''classify_activity_level'' classify_activity_level)) (\<lambda>f.
     then_do (outcome_of (Inr (apply_series f user_means))) (\<lambda>user_stats.
     then_do (outcome_of (Inr (series_mul (value_counts_normalize (map snd user_stats)) 100)))
       (\<lambda>user_levels.
     then_do weekly_patterns_step (\<lambda>weekly.
     then_do weekend_comparison_step (\<lambda>comparison.
     outcome_of (Inr \<lparr>basic_stats = stats,
                      activity_distribution = distribution,
                      user_activity_levels = user_levels,
                      weekly_patterns = weekly,
                      weekend_comparison = comparison\<rparr>)))))))))"

section \<open>Step 4: the report\<close>

text \<open>\<open>series[label]\<close>: the value at the label, or \<open>KeyError\<close> with the label as its
  argument when the Series does not hold it.\<close>

definition getitem :: "string series \<Rightarrow> string \<Rightarrow> error + fval" where
  "getitem s label = (case map_of s label of None \<Rightarrow> Inl (KeyError label) | Some v \<Rightarrow> Inr v)"

text \<open>The replacement fields of an f-string are evaluated from left to right; the first
  one that raises ends the evaluation.\<close>

fun getitems :: "string series \<Rightarrow> string list \<Rightarrow> error + fval list" where
  "getitems s [] = Inr []"
| "getitems s (label # labels) =
     (case getitem s label of
        Inl e \<Rightarrow> Inl e
      | Inr v \<Rightarrow> (case getitems s labels of Inl e \<Rightarrow> Inl e | Inr vs \<Rightarrow> Inr (v # vs)))"

text \<open>The labels that lines 211 to 214, and again lines 217 to 220, look up, in this
  order.\<close>

definition bucket_labels :: "string list" where
  "bucket_labels = [''Sedentary'', ''Lightly Active'', ''Fairly Active'', ''Very Active'']"

text \<open>
  A page of the report, as the data it shows; the fixed prose, the number formats and the
  layout are left out. Page 1 shows figures of \<open>basic_stats\<close>, page 2 is the figure built
  by \<open>create_visualizations\<close>, page 3 shows the four record-level percentages, the four
  user-level percentages and one line for each entry of \<open>weekly_patterns\<close>.
\<close>

datatype page = Summary stats | Charts | Detail "fval list" "fval list" "string series"

text \<open>Lines 207 to 226: the text of page 3.\<close>

definition detailed_text :: "results \<Rightarrow> error + page" where
  "detailed_text r =
     (case getitems (activity_distribution r) bucket_labels of
        Inl e \<Rightarrow> Inl e
      | Inr record_level \<Rightarrow>
          (case getitems (user_activity_levels r) bucket_labels of
             Inl e \<Rightarrow> Inl e
           | Inr user_level \<Rightarrow> Inr (Detail record_level user_level (weekly_patterns r))))"

text \<open>
  \<open>generate_pdf_report\<close> (lines 155 to 254): the outcome and the pages saved to the
  document so far, which the \<open>with\<close> block closes on every exit. The body reads only
  \<open>results\<close> and the finished figure.
\<close>

definition generate_pdf_report :: "results \<Rightarrow> (error + unit) \<times> page list" where
  "generate_pdf_report r =
     (let pdf1 = [Summary (basic_stats r)];
          pdf2 = pdf1 @ [Charts]
      in case detailed_text r of
           Inl e \<Rightarrow> (Inl e, pdf2)
         | Inr p \<Rightarrow> (Inr (), pdf2 @ [p]))"

text \<open>
  The first label that page 3 looks up and does not find: the four labels in
  \<open>activity_distribution\<close> first, then the four in \<open>user_activity_levels\<close>.
\<close>

definition first_absent :: "results \<Rightarrow> string option" where
  "first_absent r =
     (case find (\<lambda>l. map_of (activity_distribution r) l = None) bucket_labels of
        Some l \<Rightarrow> Some l
      | None \<Rightarrow> find (\<lambda>l. map_of (user_activity_levels r) l = None) bucket_labels)"

section \<open>Step 5: the summary table\<close>

text \<open>The order of floats that are not NaN.\<close>

fun fless :: "fval \<Rightarrow> fval \<Rightarrow> bool" where
  "fless (Num a) (Num b) = (a < b)"
| "fless NegInf (Num b) = True"
| "fless NegInf PosInf = True"
| "fless (Num a) PosInf = True"
| "fless x y = False"

text \<open>
  \<open>Series.idxmax()\<close> and \<open>Series.idxmin()\<close> share one scan: NaN entries are skipped,
  the remaining ones are visited from the first to the last, and an entry replaces the
  best one so far only when it is strictly better. \<open>None\<close> stands for the case that
  every entry is NaN, where the library has no label to return and raises \<open>ValueError\<close>.
\<close>

definition scan_best :: "(fval \<Rightarrow> fval \<Rightarrow> bool) \<Rightarrow> 'k series \<Rightarrow> 'k option" where
  "scan_best better s =
     (case filter (\<lambda>e. snd e \<noteq> NaN) s of
        [] \<Rightarrow> None
      | first # rest \<Rightarrow>
          Some (fst (fold (\<lambda>entry best. if better (snd entry) (snd best) then entry else best)
                       rest first)))"

definition idxmax :: "'k series \<Rightarrow> 'k option" where
  "idxmax s = scan_best (\<lambda>v best. fless best v) s"

definition idxmin :: "'k series \<Rightarrow> 'k option" where
  "idxmin s = scan_best (\<lambda>v best. fless v best) s"

text \<open>
  What the scan is measured against: an entry of a Series is maximal (minimal) when its
  value is not NaN and no value of the Series that is not NaN lies above (below) it.
\<close>

definition maximal :: "'k series \<Rightarrow> 'k \<times> fval \<Rightarrow> bool" where
  "maximal s e \<longleftrightarrow> snd e \<noteq> NaN \<and> (\<forall>e' \<in> set s. snd e' \<noteq> NaN \<longrightarrow> \<not> fless (snd e) (snd e'))"

definition minimal :: "'k series \<Rightarrow> 'k \<times> fval \<Rightarrow> bool" where
  "minimal s e \<longleftrightarrow> snd e \<noteq> NaN \<and> (\<forall>e' \<in> set s. snd e' \<noteq> NaN \<longrightarrow> \<not> fless (snd e') (snd e))"

text \<open>A cell of the column \<open>Value\<close>: a Python integer or a string.\<close>

datatype cell = IntCell nat | StrCell string

text \<open>
  Lines 267 to 274. \<open>fmt0\<close> and \<open>fmt1\<close> are Python's float formats \<open>.0f\<close> and
  \<open>.1f\<close>; \<open>weekly\<close> is \<open>results['weekly_patterns']\<close>. The result is \<open>None\<close> when
  \<open>idxmax\<close> or \<open>idxmin\<close> has no label to return.
\<close>

definition summary_df ::
  "(fval \<Rightarrow> string) \<Rightarrow> (fval \<Rightarrow> string) \<Rightarrow> activity_record list \<Rightarrow> string series
     \<Rightarrow> (string \<times> cell) list option" where
  "summary_df fmt0 fmt1 df weekly =
     (case idxmax weekly of
        None \<Rightarrow> None
      | Some most \<Rightarrow>
          (case idxmin weekly of
             None \<Rightarrow> None
           | Some least \<Rightarrow>
               Some [(''Total Records'', IntCell (length df)),
                     (''Unique Users'', IntCell (nunique (map Id_col df))),
                     (''Average Daily Steps'', StrCell (fmt0 (mean (map TotalSteps df)))),
                     (''Average Sedentary Hours'',
                        StrCell (fmt1 (fdiv (mean (map SedentaryMinutes df)) 60))),
                     (''Most Active Day'', StrCell most),
                     (''Least Active Day'', StrCell least)]))"

text \<open>The decimal digits of a natural number, as \<open>str\<close> writes them.\<close>

fun decimal :: "nat \<Rightarrow> string" where
  "decimal n =
     (if n < 10 then [char_of (48 + n)] else decimal (n div 10) @ [char_of (48 + n mod 10)])"

declare decimal.simps [simp del]

text \<open>\<open>to_csv(index=False)\<close> (line 275): the header, then each row with its value
  written as text.\<close>

definition cell_text :: "cell \<Rightarrow> string" where
  "cell_text c = (case c of IntCell n \<Rightarrow> decimal n | StrCell t \<Rightarrow> t)"

definition to_csv :: "(string \<times> cell) list \<Rightarrow> (string \<times> string) list" where
  "to_csv rows = (''Metric'', ''Value'') # map (\<lambda>(metric, value). (metric, cell_text value)) rows"


section \<open>The run of the script\<close>

text \<open>The files that the script writes: the report with the pages saved to it, the
  cleaned table, and the summary table as text.\<close>

datatype written_file =
  Report_pdf "page list" | Cleaned_csv "activity_record list" | Summary_csv "(string \<times> string) list"

text \<open>
  The module-level statements from line 45 on, for the parsed input table: the outcome of
  the run and the files written when it ends. An exception at module level ends the run.
  Line 87 calls \<open>analyze_data\<close>, line 257 \<open>generate_pdf_report\<close>, whose \<open>with\<close> block
  closes the report with the pages saved so far; line 263 writes the cleaned table, and
  lines 267 to 275 build and write the summary, where \<open>idxmax\<close> and \<open>idxmin\<close> raise
  \<open>ValueError\<close> when they have no label to return. Line 149 builds the figure of page 2
  in memory and writes no file; it is left out.
\<close>

definition script ::
  "(fval \<Rightarrow> string) \<Rightarrow> (fval \<Rightarrow> string) \<Rightarrow> raw_record list \<Rightarrow> (error + unit) \<times> written_file list" where
  "script fmt0 fmt1 raw =
     (let df = load_and_clean_data raw
      in case analyze_data df of
           (Inl e, df') \<Rightarrow> (Inl e, [])
         | (Inr results, df') \<Rightarrow>
             (case generate_pdf_report results of
                (Inl e, pages) \<Rightarrow> (Inl e, [Report_pdf pages])
              | (Inr done, pages) \<Rightarrow>
                  (case summary_df fmt0 fmt1 df' (weekly_patterns results) of
                     None \<Rightarrow>
                       (Inl (ValueError ''Encountered all NA values''),
                        [Report_pdf pages, Cleaned_csv df'])
                   | Some rows \<Rightarrow>
                       (Inr (), [Report_pdf pages, Cleaned_csv df', Summary_csv (to_csv rows)]))))"

section \<open>Example tables\<close>

text \<open>
  The table of the end-to-end scenario: two users, 1 and 2, on Monday 1970-01-05 and
  Tuesday 1970-01-06. The scenario leaves the calories and the minutes of user 2 open.
\<close>

definition scenario_raw :: "raw_record list" where
  "scenario_raw =
     [\<lparr>Id_col = 1, ActivityDate = 4, TotalSteps = 3000, Calories = 1800,
       VeryActiveMinutes = 0, FairlyActiveMinutes = 0, LightlyActiveMinutes = 10,
       SedentaryMinutes = 1430\<rparr>,
      \<lparr>Id_col = 1, ActivityDate = 5, TotalSteps = 12000, Calories = 2600,
       VeryActiveMinutes = 60, FairlyActiveMinutes = 20, LightlyActiveMinutes = 40,
       SedentaryMinutes = 1320\<rparr>,
      \<lparr>Id_col = 2, ActivityDate = 4, TotalSteps = 8000, Calories = 2200,
       VeryActiveMinutes = 30, FairlyActiveMinutes = 15, LightlyActiveMinutes = 200,
       SedentaryMinutes = 1195\<rparr>,
      \<lparr>Id_col = 2, ActivityDate = 5, TotalSteps = 6000, Calories = 2000,
       VeryActiveMinutes = 10, FairlyActiveMinutes = 10, LightlyActiveMinutes = 180,
       SedentaryMinutes = 1240\<rparr>]"

text \<open>One user on one day, below 5000 steps.\<close>

definition one_day_raw :: "raw_record list" where
  "one_day_raw =
     [\<lparr>Id_col = 7, ActivityDate = 4, TotalSteps = 3000, Calories = 1800,
       VeryActiveMinutes = 0, FairlyActiveMinutes = 0, LightlyActiveMinutes = 10,
       SedentaryMinutes = 1430\<rparr>]"

text \<open>One user whose two days fall into different buckets.\<close>

definition mixed_user_raw :: "raw_record list" where
  "mixed_user_raw =
     [\<lparr>Id_col = 3, ActivityDate = 4, TotalSteps = 3000, Calories = 1800,
       VeryActiveMinutes = 0, FairlyActiveMinutes = 0, LightlyActiveMinutes = 10,
       SedentaryMinutes = 1430\<rparr>,
      \<lparr>Id_col = 3, ActivityDate = 5, TotalSteps = 12000, Calories = 2600,
       VeryActiveMinutes = 60, FairlyActiveMinutes = 20, LightlyActiveMinutes = 40,
       SedentaryMinutes = 1320\<rparr>]"

text \<open>Two users with days in different buckets, and yet the same shares by record and
  by user.\<close>

definition same_share_raw :: "raw_record list" where
  "same_share_raw =
     [\<lparr>Id_col = 1, ActivityDate = 4, TotalSteps = 4999, Calories = 1900,
       VeryActiveMinutes = 5, FairlyActiveMinutes = 10, LightlyActiveMinutes = 150,
       SedentaryMinutes = 1275\<rparr>,
      \<lparr>Id_col = 1, ActivityDate = 5, TotalSteps = 5001, Calories = 1900,
       VeryActiveMinutes = 5, FairlyActiveMinutes = 10, LightlyActiveMinutes = 150,
       SedentaryMinutes = 1275\<rparr>,
      \<lparr>Id_col = 2, ActivityDate = 4, TotalSteps = 1000, Calories = 1500,
       VeryActiveMinutes = 0, FairlyActiveMinutes = 0, LightlyActiveMinutes = 40,
       SedentaryMinutes = 1400\<rparr>,
      \<lparr>Id_col = 2, ActivityDate = 5, TotalSteps = 5001, Calories = 1900,
       VeryActiveMinutes = 5, FairlyActiveMinutes = 10, LightlyActiveMinutes = 150,
       SedentaryMinutes = 1275\<rparr>]"

text \<open>A day on which the tracker recorded nothing: every minute count is zero.\<close>

definition idle_day_raw :: "raw_record list" where
  "idle_day_raw =
     [\<lparr>Id_col = 5, ActivityDate = 9, TotalSteps = 0, Calories = 0,
       VeryActiveMinutes = 0, FairlyActiveMinutes = 0, LightlyActiveMinutes = 0,
       SedentaryMinutes = 0\<rparr>]"

text \<open>One user with the same step count on Monday and Tuesday, and a lower, again equal,
  one on Wednesday and Thursday.\<close>

definition tie_raw :: "raw_record list" where
  "tie_raw =
     [\<lparr>Id_col = 1, ActivityDate = 4, TotalSteps = 8000, Calories = 2200,
       VeryActiveMinutes = 30, FairlyActiveMinutes = 15, LightlyActiveMinutes = 200,
       SedentaryMinutes = 1195\<rparr>,
      \<lparr>Id_col = 1, ActivityDate = 5, TotalSteps = 8000, Calories = 2200,
       VeryActiveMinutes = 30, FairlyActiveMinutes = 15, LightlyActiveMinutes = 200,
       SedentaryMinutes = 1195\<rparr>,
      \<lparr>Id_col = 1, ActivityDate = 6, TotalSteps = 2000, Calories = 1700,
       VeryActiveMinutes = 0, FairlyActiveMinutes = 0, LightlyActiveMinutes = 60,
       SedentaryMinutes = 1380\<rparr>,
      \<lparr>Id_col = 1, ActivityDate = 7, TotalSteps = 2000, Calories = 1700,
       VeryActiveMinutes = 0, FairlyActiveMinutes = 0, LightlyActiveMinutes = 60,
       SedentaryMinutes = 1380\<rparr>]"

text \<open>
  The dictionary that lines 56 to 83 build from the one-day table when line 69 is handed
  the classification function: both distributions hold the label Sedentary only.
\<close>

definition one_day_results :: results where
  "one_day_results =
     \<lparr>basic_stats = \<lparr>total_records = 1, unique_users = 1, date_range = (4, 4),
         avg_steps = Num 3000, avg_calories = Num 1800, avg_sedentary_hours = Num (143 / 6)\<rparr>,
      activity_distribution = activity_distribution_of (load_and_clean_data one_day_raw),
      user_activity_levels =
        user_activity_levels_of classify_activity_level (load_and_clean_data one_day_raw),
      weekly_patterns = weekly_patterns_of (load_and_clean_data one_day_raw),
      weekend_comparison = weekend_comparison_of (load_and_clean_data one_day_raw)\<rparr>"

section \<open>The classification\<close>

text \<open>
  C1. For every step count \<open>s\<close> the classification uses half-open thresholds: below 5000
  it is Sedentary, from 5000 and below 7500 Lightly Active, from 7500 and below 10000
  Fairly Active, from 10000 on Very Active. The function is total: for every argument,
  NaN and the infinities included, its value is one of the four labels.
\<close>

theorem classify_activity_level_thresholds:
  "(s < 5000 \<longrightarrow> classify_activity_level (Num s) = ''Sedentary'') \<and>
   (5000 \<le> s \<and> s < 7500 \<longrightarrow> classify_activity_level (Num s) = ''Lightly Active'') \<and>
   (7500 \<le> s \<and> s < 10000 \<longrightarrow> classify_activity_level (Num s) = ''Fairly Active'') \<and>
   (10000 \<le> s \<longrightarrow> classify_activity_level (Num s) = ''Very Active'') \<and>
   classify_activity_level x \<in> set bucket_labels"
  by (cases x) (simp_all add: classify_activity_level_def bucket_labels_def)

text \<open>The six boundary values of C1, as instances of the theorem.\<close>

theorem classify_activity_level_boundaries:
  "classify_activity_level (Num 4999) = ''Sedentary'' \<and>
   classify_activity_level (Num 5000) = ''Lightly Active'' \<and>
   classify_activity_level (Num 7499) = ''Lightly Active'' \<and>
   classify_activity_level (Num 7500) = ''Fairly Active'' \<and>
   classify_activity_level (Num 9999) = ''Fairly Active'' \<and>
   classify_activity_level (Num 10000) = ''Very Active''"
  using classify_activity_level_thresholds [of 4999] classify_activity_level_thresholds [of 5000]
    classify_activity_level_thresholds [of 7499] classify_activity_level_thresholds [of 7500]
    classify_activity_level_thresholds [of 9999] classify_activity_level_thresholds [of 10000]
  by simp

section \<open>The derived columns\<close>

text \<open>
  C7. Where the three active-minute counts of a row add up to zero and its sedentary
  minutes are zero, loading raises nothing: the row is kept, its \<open>ActivityPercentage\<close>
  is NaN, and its other derived columns have their usual values.
\<close>

theorem zero_minutes_percentage:
  assumes "i < length raw"
    and "VeryActiveMinutes (raw ! i) + FairlyActiveMinutes (raw ! i)
           + LightlyActiveMinutes (raw ! i) = 0"
    and "SedentaryMinutes (raw ! i) = 0"
  shows "length (load_and_clean_data raw) = length raw \<and>
         TotalActiveMinutes (load_and_clean_data raw ! i) = 0 \<and>
         ActivityPercentage (load_and_clean_data raw ! i) = NaN \<and>
         DayOfWeek (load_and_clean_data raw ! i) = day_name (ActivityDate (raw ! i)) \<and>
         IsWeekend (load_and_clean_data raw ! i) =
           (day_name (ActivityDate (raw ! i)) \<in> {''Saturday'', ''Sunday''}) \<and>
         ActivityLevel (load_and_clean_data raw ! i) =
           classify_activity_level (Num (of_int (TotalSteps (raw ! i))))"
  using assms by (simp add: load_and_clean_data_def derive_def truediv_def Let_def)

text \<open>C7 on the idle day, a Saturday.\<close>

theorem zero_minutes_percentage_witness:
  "0 < length idle_day_raw \<and>
   VeryActiveMinutes (idle_day_raw ! 0) + FairlyActiveMinutes (idle_day_raw ! 0)
     + LightlyActiveMinutes (idle_day_raw ! 0) = 0 \<and>
   SedentaryMinutes (idle_day_raw ! 0) = 0 \<and>
   ActivityPercentage (load_and_clean_data idle_day_raw ! 0) = NaN \<and>
   IsWeekend (load_and_clean_data idle_day_raw ! 0) \<and>
   ActivityLevel (load_and_clean_data idle_day_raw ! 0) = ''Sedentary''"
proof -
  have 1: "0 < length idle_day_raw"
    by (simp add: idle_day_raw_def)
  have 2: "VeryActiveMinutes (idle_day_raw ! 0) + FairlyActiveMinutes (idle_day_raw ! 0)
             + LightlyActiveMinutes (idle_day_raw ! 0) = 0"
    by (simp add: idle_day_raw_def)
  have 3: "SedentaryMinutes (idle_day_raw ! 0) = 0"
    by (simp add: idle_day_raw_def)
  have 4: "day_name (ActivityDate (idle_day_raw ! 0)) = ''Saturday''"
    by (simp add: idle_day_raw_def day_name_def)
  have 5: "classify_activity_level (Num (of_int (TotalSteps (idle_day_raw ! 0)))) = ''Sedentary''"
    by (simp add: idle_day_raw_def classify_activity_level_def)
  from zero_minutes_percentage [OF 1 2 3] 1 2 3 4 5 show ?thesis
    by simp
qed

section \<open>The outcome of the aggregator\<close>

text \<open>The name that line 69 reads is bound inside \<open>load_and_clean_data\<close> and nowhere
  that \<open>analyze_data\<close> can see.\<close>

lemma classify_activity_level_scope:
  "''classify_activity_level'' \<in> set load_and_clean_data_locals \<and>
   ''classify_activity_level'' \<notin> set (module_level_names @ builtin_names)"
  by (simp add: load_and_clean_data_locals_def module_level_names_def builtin_names_def)

text \<open>Each statement of the aggregator, run on a table: its outcome, and the table it
  leaves.\<close>

lemma basic_stats_step_empty:
  "basic_stats_step [] = (Inl (ValueError ''NaTType does not support strftime''), [])"
  by (simp add: basic_stats_step_def then_do_def value_of_def outcome_of_def len_df_def column_def
      date_min_def strftime_def)

lemma basic_stats_step_rows:
  assumes "df \<noteq> []"
  shows "\<exists>stats. basic_stats_step df = (Inr stats, df)"
proof -
  from assms obtain r rest where "df = r # rest"
    by (cases df) auto
  then show ?thesis
    by (simp add: basic_stats_step_def then_do_def value_of_def outcome_of_def len_df_def column_def
        date_min_def date_max_def strftime_def)
qed

lemma activity_distribution_step_value:
  "activity_distribution_step df = (Inr (activity_distribution_of df), df)"
  by (simp add: activity_distribution_step_def activity_distribution_of_def then_do_def
      value_of_def outcome_of_def column_def)

lemma group_means_groupby:
  "group_means col (fst (groupby key df)) = groupby_mean key col df"
  by (simp add: group_means_def groupby_def groupby_mean_def)

lemma user_means_step_value:
  "user_means_step df = (Inr (user_means_of df), df)"
  using group_means_groupby [of TotalSteps Id_col df]
  by (simp add: user_means_step_def user_means_of_def then_do_def value_of_def outcome_of_def
      groupby_def)

lemma user_activity_levels_of_means:
  "series_mul (value_counts_normalize (map snd (apply_series f (user_means_of df)))) 100 =
     user_activity_levels_of f df"
  by (simp add: user_activity_levels_of_def user_stats_of_def)

lemma weekly_patterns_step_value:
  "weekly_patterns_step df = (Inr (weekly_patterns_of df), df)"
  using group_means_groupby [of TotalSteps DayOfWeek df]
  by (simp add: weekly_patterns_step_def weekly_patterns_of_def then_do_def value_of_def
      outcome_of_def groupby_def)

lemma weekend_comparison_step_value:
  "weekend_comparison_step df = (Inr (weekend_comparison_of df), df)"
proof -
  have "map (\<lambda>((k, steps), (_, very), (_, sedentary)). (k, steps, very, sedentary))
          (zip (map (\<lambda>k. (k, f k)) ks) (zip (map (\<lambda>k. (k, g k)) ks) (map (\<lambda>k. (k, h k)) ks))) =
        map (\<lambda>k. (k, f k, g k, h k)) ks" for f g h :: "bool \<Rightarrow> fval" and ks
    by (induction ks) simp_all
  then show ?thesis
    by (simp add: weekend_comparison_step_def weekend_comparison_of_def groupby_mean_def
        then_do_def value_of_def outcome_of_def groupby_def comp_def)
qed

lemma analyze_data_outcome:
  "fst (analyze_data df) =
     (if df = [] then Inl (ValueError ''NaTType does not support strftime'')
      else Inl (NameError ''classify_activity_level''))"
proof (cases "df = []")
  case True
  then show ?thesis
    by (simp add: analyze_data_def then_do_def basic_stats_step_empty)
next
  case False
  then obtain stats where "basic_stats_step df = (Inr stats, df)"
    using basic_stats_step_rows by blast
  with False show ?thesis
    by (simp add: analyze_data_def then_do_def activity_distribution_step_value
        user_means_step_value outcome_of_def load_global_def module_level_names_def
        builtin_names_def)
qed

text \<open>
  C2, as the code has it. On every table with at least one row \<open>analyze_data\<close> raises
  \<open>NameError\<close> for \<open>classify_activity_level\<close> at line 69, and on no table at all does it
  return a dictionary.
\<close>

theorem analyze_data_raises:
  "(df \<noteq> [] \<longrightarrow> fst (analyze_data df) = Inl (NameError ''classify_activity_level'')) \<and>
   (\<nexists>r. fst (analyze_data df) = Inr r)"
  by (simp add: analyze_data_outcome)

text \<open>C2 on the one-day table.\<close>

theorem analyze_data_raises_witness:
  "load_and_clean_data one_day_raw \<noteq> [] \<and>
   fst (analyze_data (load_and_clean_data one_day_raw)) =
     Inl (NameError ''classify_activity_level'')"
  using analyze_data_raises [of "load_and_clean_data one_day_raw"]
  by (simp add: load_and_clean_data_def one_day_raw_def)

text \<open>
  C2 as stated fails on the table without rows: line 59 raises \<open>ValueError\<close> there, before
  line 69 is reached.
\<close>

theorem analyze_data_empty_table:
  "fst (analyze_data (load_and_clean_data [])) =
     Inl (ValueError ''NaTType does not support strftime'') \<and>
   fst (analyze_data (load_and_clean_data [])) \<noteq> Inl (NameError ''classify_activity_level'')"
  by (simp add: analyze_data_outcome load_and_clean_data_def)

section \<open>The table after the call\<close>

text \<open>A sequence leaves the table as it was when each of its statements does.\<close>

lemma then_do_leaves:
  assumes "\<And>s. snd (m s) = s" and "\<And>x s. snd (f x s) = s"
  shows "snd (then_do m f s) = s"
proof (cases "m s")
  case (Pair r s')
  with assms(1) [of s] have "s' = s"
    by simp
  with Pair assms(2) show ?thesis
    by (cases r) (simp_all add: then_do_def)
qed

lemma value_of_len_df_leaves: "snd (value_of len_df s) = s"
  by (simp add: value_of_def len_df_def)

lemma value_of_column_leaves: "snd (value_of (column c) s) = s"
  by (simp add: value_of_def column_def)

lemma value_of_groupby_leaves: "snd (value_of (groupby key) s) = s"
  by (simp add: value_of_def groupby_def)

lemma outcome_of_leaves: "snd (outcome_of r s) = s"
  by (simp add: outcome_of_def)

lemma basic_stats_step_leaves: "snd (basic_stats_step df) = df"
  unfolding basic_stats_step_def
  by (intro then_do_leaves value_of_len_df_leaves value_of_column_leaves outcome_of_leaves)

lemma activity_distribution_step_leaves: "snd (activity_distribution_step df) = df"
  unfolding activity_distribution_step_def
  by (intro then_do_leaves value_of_column_leaves outcome_of_leaves)

lemma user_means_step_leaves: "snd (user_means_step df) = df"
  unfolding user_means_step_def
  by (intro then_do_leaves value_of_groupby_leaves outcome_of_leaves)

lemma weekly_patterns_step_leaves: "snd (weekly_patterns_step df) = df"
  unfolding weekly_patterns_step_def
  by (intro then_do_leaves value_of_groupby_leaves outcome_of_leaves)

lemma weekend_comparison_step_leaves: "snd (weekend_comparison_step df) = df"
  unfolding weekend_comparison_step_def
  by (intro then_do_leaves value_of_groupby_leaves outcome_of_leaves)

text \<open>
  C9. However the call ends, \<open>analyze_data\<close> leaves the table as it was: every row and
  every column has the value it had before the call. The statements of the call reach the
  table through \<open>len\<close>, column reads and \<open>groupby\<close> only.
\<close>

theorem analyze_data_leaves_table:
  "snd (analyze_data df) = df"
  unfolding analyze_data_def
  by (intro then_do_leaves basic_stats_step_leaves activity_distribution_step_leaves
      user_means_step_leaves weekly_patterns_step_leaves weekend_comparison_step_leaves
      outcome_of_leaves)

text \<open>
  The property is one of the statements that the call is made of: an assignment to a
  column is a statement of the same kind, and a call that made one would return another
  table, as here for the step counts of the one-day table.
\<close>

lemma setitem_changes_table:
  "snd (then_do (setitem (\<lambda>r v. r\<lparr>TotalSteps := v\<rparr>) [0]) (\<lambda>done. activity_distribution_step)
          (load_and_clean_data one_day_raw))
     \<noteq> load_and_clean_data one_day_raw"
  by (simp add: then_do_def setitem_def activity_distribution_step_value
      load_and_clean_data_def one_day_raw_def derive_def Let_def)

section \<open>The record-level distribution\<close>

lemma series_sum_Num:
  "series_sum (map (\<lambda>l. (l, Num (g l))) ls) = Num (sum_list (map g ls))"
  by (induction ls) (simp_all add: series_sum_def)

lemma value_counts_labels:
  "set (map fst (value_counts_normalize xs)) = set xs \<and> distinct (map fst (value_counts_normalize xs))"
  by (simp add: value_counts_normalize_def comp_def)

lemma series_mul_value_counts:
  "series_mul (value_counts_normalize xs) c =
     map (\<lambda>l. (l, Num (of_nat (count_list xs l) / of_nat (length xs) * c)))
       (sort_key (\<lambda>l. - int (count_list xs l)) (rev (remdups (rev xs))))"
  by (simp add: series_mul_def value_counts_normalize_def)

lemma sum_shares:
  fixes c :: rat
  assumes "xs \<noteq> []" and "distinct ls" and "set ls = set xs"
  shows "sum_list (map (\<lambda>l. of_nat (count_list xs l) / of_nat (length xs) * c) ls) = c"
proof -
  have "sum_list (map (\<lambda>l. of_nat (count_list xs l) / of_nat (length xs) * c) ls) =
        (\<Sum>l\<in>set xs. of_nat (count_list xs l) / of_nat (length xs) * c)"
    using assms by (simp add: sum_list_distinct_conv_sum_set)
  also have "\<dots> = (\<Sum>l\<in>set xs. of_nat (count_list xs l)) / of_nat (length xs) * c"
    by (simp add: sum_distrib_right sum_divide_distrib)
  also have "(\<Sum>l\<in>set xs. (of_nat (count_list xs l) :: rat)) = of_nat (length xs)"
    using sum_count_set [of xs "set xs"] by (simp flip: of_nat_sum)
  finally show ?thesis using assms by simp
qed

lemma value_counts_percent_sum:
  assumes "xs \<noteq> []"
  shows "series_sum (series_mul (value_counts_normalize xs) 100) = Num 100"
  unfolding series_mul_value_counts series_sum_Num
  using sum_shares [OF assms, of "sort_key (\<lambda>l. - int (count_list xs l)) (rev (remdups (rev xs)))" 100]
  by simp

lemma map_of_value_counts_percent:
  "map_of (series_mul (value_counts_normalize xs) 100) l =
     (if l \<in> set xs then Some (Num (of_nat (count_list xs l) / of_nat (length xs) * 100)) else None)"
  unfolding series_mul_value_counts by (simp add: map_of_map_restrict restrict_map_def)

lemma count_list_map_filter:
  "count_list (map f xs) l = length (filter (\<lambda>r. f r = l) xs)"
  by (induction xs) simp_all

text \<open>
  What line 66 does deliver: for each label that occurs, the percentage of the records
  that carry it, and percentages that add up to 100 on a table with at least one row.
\<close>

lemma activity_distribution_of_records:
  "map_of (activity_distribution_of df) l =
     (if l \<in> ActivityLevel ` set df
      then Some (Num (of_nat (length (filter (\<lambda>r. ActivityLevel r = l) df)) / of_nat (length df) * 100))
      else None)"
  by (simp add: activity_distribution_of_def map_of_value_counts_percent count_list_map_filter)

lemma activity_distribution_of_sum:
  "df \<noteq> [] \<Longrightarrow> series_sum (activity_distribution_of df) = Num 100"
  by (simp add: activity_distribution_of_def value_counts_percent_sum)

text \<open>
  C3 requires all four labels, an empty bucket at 0 percent. On the one-day table the
  distribution holds the label Sedentary alone, and looking up another label raises
  \<open>KeyError\<close>.
\<close>

theorem activity_distribution_omits_bucket:
  "activity_distribution_of (load_and_clean_data one_day_raw) = [(''Sedentary'', Num 100)] \<and>
   map fst (activity_distribution_of (load_and_clean_data one_day_raw)) \<noteq> bucket_labels \<and>
   getitem (activity_distribution_of (load_and_clean_data one_day_raw)) ''Very Active'' =
     Inl (KeyError ''Very Active'')"
  by code_simp

section \<open>The user-level distribution\<close>

text \<open>
  Lines 69 and 70 for a function \<open>f\<close> that is handed to \<open>apply\<close>: each user is
  classified by \<open>f\<close> of the mean of the user's step counts, each label that some user
  gets holds the percentage of the users that got it, and the percentages add up to 100.
\<close>

lemma user_stats_of_mean:
  "map_of (user_stats_of f df) u =
     (if u \<in> Id_col ` set df
      then Some (f (mean (map TotalSteps (filter (\<lambda>r. Id_col r = u) df)))) else None)"
  by (simp add: user_stats_of_def user_means_of_def apply_series_def groupby_mean_def comp_def
      map_of_map_restrict restrict_map_def)

lemma length_user_stats_of: "length (user_stats_of f df) = nunique (map Id_col df)"
  by (simp add: user_stats_of_def user_means_of_def apply_series_def groupby_mean_def nunique_def)

lemma user_activity_levels_of_users:
  "map_of (user_activity_levels_of f df) l =
     (if l \<in> snd ` set (user_stats_of f df)
      then Some (Num (of_nat (length (filter (\<lambda>e. snd e = l) (user_stats_of f df)))
                        / of_nat (nunique (map Id_col df)) * 100))
      else None)"
  by (simp add: user_activity_levels_of_def map_of_value_counts_percent count_list_map_filter
      length_user_stats_of)

lemma user_activity_levels_of_sum:
  assumes "df \<noteq> []"
  shows "series_sum (user_activity_levels_of f df) = Num 100"
proof -
  have "nunique (map Id_col df) \<noteq> 0"
    using assms by (simp add: nunique_def)
  then have "map snd (user_stats_of f df) \<noteq> []"
    using length_user_stats_of [of f df] by auto
  then show ?thesis
    by (simp add: user_activity_levels_of_def value_counts_percent_sum)
qed

text \<open>With the classification function for \<open>f\<close>: user 3 is Fairly Active by the mean
  of 7500 steps, while no record of user 3 is.\<close>

lemma mixed_user_levels:
  "user_activity_levels_of classify_activity_level (load_and_clean_data mixed_user_raw) =
     [(''Fairly Active'', Num 100)] \<and>
   activity_distribution_of (load_and_clean_data mixed_user_raw) =
     [(''Sedentary'', Num 50), (''Very Active'', Num 50)]"
  by code_simp

text \<open>Days in different buckets do not by themselves make the two distributions
  differ: here both give Sedentary and Lightly Active 50 percent each.\<close>

lemma same_share_levels:
  "user_activity_levels_of classify_activity_level (load_and_clean_data same_share_raw) =
     [(''Lightly Active'', Num 50), (''Sedentary'', Num 50)] \<and>
   activity_distribution_of (load_and_clean_data same_share_raw) =
     [(''Sedentary'', Num 50), (''Lightly Active'', Num 50)]"
  by code_simp

text \<open>
  C4 describes the user-level distribution. In the script the name at line 69 does not
  resolve, so on the table of user 3 the call raises \<open>NameError\<close> and no user-level
  distribution is computed.
\<close>

theorem user_activity_levels_name_error:
  "fst (analyze_data (load_and_clean_data mixed_user_raw)) =
     Inl (NameError ''classify_activity_level'')"
  by (simp add: analyze_data_outcome load_and_clean_data_def mixed_user_raw_def)

section \<open>The weekly pattern\<close>

lemma map_of_groupby_mean:
  "map_of (groupby_mean key col df) k =
     (if k \<in> key ` set df then Some (mean (map col (filter (\<lambda>r. key r = k) df))) else None)"
  by (simp add: groupby_mean_def map_of_map_restrict restrict_map_def)

lemma filter_key_empty: "k \<notin> key ` set df \<Longrightarrow> filter (\<lambda>r. key r = k) df = []"
  by (induction df) auto

lemma reindex_groupby_mean:
  "reindex labels (groupby_mean key col df) =
     map (\<lambda>l. (l, mean (map col (filter (\<lambda>r. key r = l) df)))) labels"
  by (simp add: reindex_def map_of_groupby_mean filter_key_empty mean_def)

lemma weekly_patterns_of_map:
  "weekly_patterns_of df =
     map (\<lambda>day. (day, mean (map TotalSteps (filter (\<lambda>r. DayOfWeek r = day) df)))) day_order"
  by (simp add: weekly_patterns_of_def reindex_groupby_mean)

lemma length_day_order: "length day_order = 7"
  by (simp add: day_order_def)

lemma length_weekly_patterns_of: "length (weekly_patterns_of df) = 7"
  by (simp add: weekly_patterns_of_map length_day_order)

lemma weekly_patterns_of_label:
  "i < 7 \<Longrightarrow> fst (weekly_patterns_of df ! i) = day_order ! i"
  by (simp add: weekly_patterns_of_map length_day_order)

text \<open>
  The statement of lines 73 and 74, taken on its own: for every table it gives exactly
  seven entries, labelled Monday to Sunday in this order, each with the mean of
  \<open>TotalSteps\<close> over the rows of that day; a day without rows is present with NaN.
\<close>

lemma weekly_patterns_of_days:
  "weekly_patterns_of df =
     map (\<lambda>day. (day, mean (map TotalSteps (filter (\<lambda>r. DayOfWeek r = day) df)))) day_order \<and>
   map fst (weekly_patterns_of df) =
     [''Monday'', ''Tuesday'', ''Wednesday'', ''Thursday'', ''Friday'', ''Saturday'', ''Sunday''] \<and>
   length (weekly_patterns_of df) = 7 \<and>
   (\<forall>day \<in> set day_order. day \<notin> DayOfWeek ` set df \<longrightarrow>
      map_of (weekly_patterns_of df) day = Some NaN)"
proof -
  have eq: "weekly_patterns_of df =
     map (\<lambda>day. (day, mean (map TotalSteps (filter (\<lambda>r. DayOfWeek r = day) df)))) day_order"
    by (rule weekly_patterns_of_map)
  have labels: "map fst (weekly_patterns_of df) = day_order"
    by (simp add: eq comp_def)
  have nan: "map_of (weekly_patterns_of df) day = Some NaN"
    if "day \<in> set day_order" "day \<notin> DayOfWeek ` set df" for day
    using that by (simp add: eq map_of_map_restrict filter_key_empty mean_def)
  from eq labels nan show ?thesis
    by (simp add: day_order_def)
qed

text \<open>On the scenario: Wednesday has no rows and holds NaN, Tuesday holds 9000.\<close>

lemma weekly_patterns_of_days_scenario:
  "''Wednesday'' \<in> set day_order \<and>
   ''Wednesday'' \<notin> DayOfWeek ` set (load_and_clean_data scenario_raw) \<and>
   map_of (weekly_patterns_of (load_and_clean_data scenario_raw)) ''Wednesday'' = Some NaN \<and>
   map_of (weekly_patterns_of (load_and_clean_data scenario_raw)) ''Tuesday'' = Some (Num 9000)"
proof -
  have 1: "''Wednesday'' \<in> set day_order" by (simp add: day_order_def)
  have 2: "''Wednesday'' \<notin> DayOfWeek ` set (load_and_clean_data scenario_raw)"
    by (simp add: load_and_clean_data_def scenario_raw_def derive_def day_name_def)
  have 3: "map_of (weekly_patterns_of (load_and_clean_data scenario_raw)) ''Tuesday'' = Some (Num 9000)"
    using weekly_patterns_of_days [of "load_and_clean_data scenario_raw"]
    by (simp add: load_and_clean_data_def scenario_raw_def derive_def day_name_def day_order_def mean_def)
  from 1 2 3 weekly_patterns_of_days [of "load_and_clean_data scenario_raw"] show ?thesis
    by blast
qed

text \<open>
  C5 describes the weekly pattern that the aggregator returns. On the table of two users
  with rows on Monday and Tuesday only, the call of \<open>analyze_data\<close> raises \<open>NameError\<close>
  at line 69, before lines 73 to 75 run: it returns no dictionary, and so no weekly
  pattern. Run on that table on their own, lines 73 and 74 give the seven entries that
  the claim describes.
\<close>

theorem weekly_patterns_not_returned:
  "fst (analyze_data (load_and_clean_data same_share_raw)) =
     Inl (NameError ''classify_activity_level'') \<and>
   (\<nexists>res. fst (analyze_data (load_and_clean_data same_share_raw)) = Inr res) \<and>
   weekly_patterns_step (load_and_clean_data same_share_raw) =
     (Inr [(''Monday'', Num (5999 / 2)), (''Tuesday'', Num 5001), (''Wednesday'', NaN),
           (''Thursday'', NaN), (''Friday'', NaN), (''Saturday'', NaN), (''Sunday'', NaN)],
      load_and_clean_data same_share_raw)"
proof -
  have "weekly_patterns_of (load_and_clean_data same_share_raw) =
     [(''Monday'', Num (5999 / 2)), (''Tuesday'', Num 5001), (''Wednesday'', NaN),
      (''Thursday'', NaN), (''Friday'', NaN), (''Saturday'', NaN), (''Sunday'', NaN)]"
    by code_simp
  moreover have "load_and_clean_data same_share_raw \<noteq> []"
    by (simp add: load_and_clean_data_def same_share_raw_def)
  ultimately show ?thesis
    by (simp add: analyze_data_outcome weekly_patterns_step_value)
qed

section \<open>The end-to-end scenario\<close>

text \<open>
  C6. On the scenario table the call of \<open>analyze_data\<close> raises \<open>NameError\<close>, so the
  pipeline yields none of the expected values. Taken one by one, line 66 gives each
  bucket 25 percent, the mean of user 1 is 7500, which the classification function maps
  to Fairly Active, and line 74 gives Monday 5500.
\<close>

theorem scenario_name_error:
  "fst (analyze_data (load_and_clean_data scenario_raw)) =
     Inl (NameError ''classify_activity_level'') \<and>
   map_of (activity_distribution_of (load_and_clean_data scenario_raw)) ''Sedentary'' = Some (Num 25) \<and>
   map_of (activity_distribution_of (load_and_clean_data scenario_raw)) ''Lightly Active'' = Some (Num 25) \<and>
   map_of (activity_distribution_of (load_and_clean_data scenario_raw)) ''Fairly Active'' = Some (Num 25) \<and>
   map_of (activity_distribution_of (load_and_clean_data scenario_raw)) ''Very Active'' = Some (Num 25) \<and>
   map_of (user_means_of (load_and_clean_data scenario_raw)) 1 = Some (Num 7500) \<and>
   classify_activity_level (Num 7500) = ''Fairly Active'' \<and>
   map_of (weekly_patterns_of (load_and_clean_data scenario_raw)) ''Monday'' = Some (Num 5500)"
  by code_simp

section \<open>The report\<close>

lemma getitems_first_absent:
  "getitems s labels =
     (case find (\<lambda>l. map_of s l = None) labels of
        Some l \<Rightarrow> Inl (KeyError l)
      | None \<Rightarrow> Inr (map (\<lambda>l. the (map_of s l)) labels))"
  by (induction labels) (auto simp: getitem_def split: option.splits)

lemma generate_pdf_report_outcome:
  "generate_pdf_report r =
     (case first_absent r of
        Some k \<Rightarrow> (Inl (KeyError k), [Summary (basic_stats r), Charts])
      | None \<Rightarrow>
          (Inr (), [Summary (basic_stats r), Charts,
                    Detail (map (\<lambda>l. the (map_of (activity_distribution r) l)) bucket_labels)
                      (map (\<lambda>l. the (map_of (user_activity_levels r) l)) bucket_labels)
                      (weekly_patterns r)]))"
  by (simp add: generate_pdf_report_def detailed_text_def getitems_first_absent first_absent_def
      split: option.splits)

lemma first_absent_Some:
  assumes "first_absent r = Some k"
  shows "k \<in> set bucket_labels \<and>
         (k \<notin> fst ` set (activity_distribution r) \<or> k \<notin> fst ` set (user_activity_levels r))"
proof -
  from assms have "find (\<lambda>l. map_of (activity_distribution r) l = None) bucket_labels = Some k \<or>
      find (\<lambda>l. map_of (user_activity_levels r) l = None) bucket_labels = Some k"
    by (auto simp: first_absent_def split: option.splits)
  then have "k \<in> set bucket_labels \<and>
      (map_of (activity_distribution r) k = None \<or> map_of (user_activity_levels r) k = None)"
    by (auto simp: find_Some_iff)
  then show ?thesis
    by (simp add: map_of_eq_None_iff)
qed

text \<open>
  C8, as the code has it. When one of the four labels is absent from
  \<open>activity_distribution\<close> or from \<open>user_activity_levels\<close>, \<open>generate_pdf_report\<close>
  raises Python's built-in \<open>KeyError\<close>, after pages 1 and 2 have been saved; its
  argument is the first absent label in the order of the lookups, one of the four labels.
\<close>

theorem generate_pdf_report_missing_label:
  assumes "l \<in> set bucket_labels"
    and "l \<notin> fst ` set (activity_distribution r) \<or> l \<notin> fst ` set (user_activity_levels r)"
  shows "\<exists>k. first_absent r = Some k \<and> k \<in> set bucket_labels \<and>
           (k \<notin> fst ` set (activity_distribution r) \<or> k \<notin> fst ` set (user_activity_levels r)) \<and>
           generate_pdf_report r = (Inl (KeyError k), [Summary (basic_stats r), Charts])"
proof -
  from assms(2) have "map_of (activity_distribution r) l = None \<or>
      map_of (user_activity_levels r) l = None"
    by (simp add: map_of_eq_None_iff)
  with assms(1) have "find (\<lambda>l. map_of (activity_distribution r) l = None) bucket_labels \<noteq> None \<or>
      find (\<lambda>l. map_of (user_activity_levels r) l = None) bucket_labels \<noteq> None"
    by (auto simp: find_None_iff)
  then have "first_absent r \<noteq> None"
    by (auto simp: first_absent_def split: option.splits)
  then obtain k where k: "first_absent r = Some k"
    by blast
  then have "generate_pdf_report r = (Inl (KeyError k), [Summary (basic_stats r), Charts])"
    by (simp add: generate_pdf_report_outcome)
  with k first_absent_Some [OF k] show ?thesis
    by blast
qed

text \<open>C8 on the one-day dictionary, which lacks Very Active.\<close>

theorem generate_pdf_report_missing_label_witness:
  "''Very Active'' \<in> set bucket_labels \<and>
   ''Very Active'' \<notin> fst ` set (activity_distribution one_day_results) \<and>
   (\<exists>k. first_absent one_day_results = Some k \<and>
      generate_pdf_report one_day_results =
        (Inl (KeyError k), [Summary (basic_stats one_day_results), Charts]))"
proof -
  have 1: "''Very Active'' \<in> set bucket_labels"
    by (simp add: bucket_labels_def)
  have 2: "''Very Active'' \<notin> fst ` set (activity_distribution one_day_results)"
    by (simp add: one_day_results_def activity_distribution_of_def load_and_clean_data_def
        one_day_raw_def derive_def Let_def value_counts_normalize_def series_mul_def
        classify_activity_level_def)
  from 2 have 3: "''Very Active'' \<notin> fst ` set (activity_distribution one_day_results) \<or>
      ''Very Active'' \<notin> fst ` set (user_activity_levels one_day_results)"
    by (rule disjI1)
  from generate_pdf_report_missing_label [OF 1 3] 1 2 show ?thesis
    by blast
qed

text \<open>
  C8 as stated asks for a dedicated missing-key error. On the one-day dictionary the
  failure is the \<open>KeyError\<close> of the Series lookup itself, for Lightly Active.
\<close>

theorem generate_pdf_report_key_error:
  "generate_pdf_report one_day_results =
     (Inl (KeyError ''Lightly Active''), [Summary (basic_stats one_day_results), Charts])"
  by code_simp

section \<open>The summary table\<close>

lemma fless_irrefl: "\<not> fless x x"
  by (cases x) simp_all

lemma fless_trans: "fless x y \<Longrightarrow> fless y z \<Longrightarrow> fless x z"
  by (cases x; cases y; cases z) simp_all

lemma fless_total: "x \<noteq> NaN \<Longrightarrow> y \<noteq> NaN \<Longrightarrow> fless x y \<or> x = y \<or> fless y x"
  by (cases x; cases y) auto

lemma find_first:
  "(\<forall>e \<in> set pre. \<not> P e) \<Longrightarrow> P m \<Longrightarrow> find P (pre @ m # post) = Some m"
  by (induction pre) simp_all

lemma find_filter:
  "(\<And>e. P e \<Longrightarrow> Q e) \<Longrightarrow> find P (filter Q xs) = find P xs"
  by (induction xs) auto

text \<open>The scan keeps the first entry that no other entry beats.\<close>

lemma fold_best:
  assumes irrefl: "\<And>x. \<not> better x x"
    and trans: "\<And>x y z. better x y \<Longrightarrow> better y z \<Longrightarrow> better x z"
    and total: "\<And>x y. x \<noteq> NaN \<Longrightarrow> y \<noteq> NaN \<Longrightarrow> better x y \<or> x = y \<or> better y x"
    and vals: "\<forall>e \<in> set (b # rest). snd e \<noteq> NaN"
  shows "\<exists>pre post. b # rest = pre @ fold (\<lambda>entry best. if better (snd entry) (snd best) then entry else best) rest b # post \<and>
           (\<forall>e \<in> set pre. better (snd (fold (\<lambda>entry best. if better (snd entry) (snd best) then entry else best) rest b)) (snd e)) \<and>
           (\<forall>e \<in> set post. \<not> better (snd e) (snd (fold (\<lambda>entry best. if better (snd entry) (snd best) then entry else best) rest b)))"
  using vals
proof (induction rest rule: rev_induct)
  case Nil
  show ?case by (rule exI [of _ "[]"], rule exI [of _ "[]"]) simp
next
  case (snoc x rest)
  let ?step = "\<lambda>entry best. if better (snd entry) (snd best) then entry else best"
  let ?m = "fold ?step rest b"
  from snoc obtain pre post where split: "b # rest = pre @ ?m # post"
    and before: "\<forall>e \<in> set pre. better (snd ?m) (snd e)"
    and after: "\<forall>e \<in> set post. \<not> better (snd e) (snd ?m)"
    by auto
  have m_in: "?m \<in> set (b # rest)" by (subst split) simp
  have m_val: "snd ?m \<noteq> NaN" using snoc.prems m_in by auto
  have x_val: "snd x \<noteq> NaN" using snoc.prems by simp
  show ?case
  proof (cases "better (snd x) (snd ?m)")
    case True
    have "\<forall>e \<in> set (b # rest). better (snd x) (snd e)"
    proof
      fix e assume "e \<in> set (b # rest)"
      then have "e \<in> set pre \<or> e = ?m \<or> e \<in> set post" by (subst (asm) split) auto
      then show "better (snd x) (snd e)"
      proof (elim disjE)
        assume "e \<in> set pre"
        with before have "better (snd ?m) (snd e)" by simp
        with True show ?thesis by (rule trans)
      next
        assume "e = ?m" with True show ?thesis by simp
      next
        assume e: "e \<in> set post"
        with after have nb: "\<not> better (snd e) (snd ?m)" by simp
        have "e \<in> set (b # rest)" by (subst split) (simp add: e)
        with snoc.prems have "snd e \<noteq> NaN" by auto
        with m_val nb total [of "snd e" "snd ?m"] have "snd e = snd ?m \<or> better (snd ?m) (snd e)" by auto
        with True trans show ?thesis by auto
      qed
    qed
    with True show ?thesis
      by (intro exI [of _ "b # rest"] exI [of _ "[]"]) simp
  next
    case False
    with split before after show ?thesis
      by (intro exI [of _ pre] exI [of _ "post @ [x]"]) auto
  qed
qed

lemma scan_best_first:
  assumes irrefl: "\<And>x. \<not> better x x"
    and trans: "\<And>x y z. better x y \<Longrightarrow> better y z \<Longrightarrow> better x z"
    and total: "\<And>x y. x \<noteq> NaN \<Longrightarrow> y \<noteq> NaN \<Longrightarrow> better x y \<or> x = y \<or> better y x"
  shows "scan_best better s =
           map_option fst (find (\<lambda>e. snd e \<noteq> NaN \<and> (\<forall>e' \<in> set s. snd e' \<noteq> NaN \<longrightarrow> \<not> better (snd e') (snd e))) s)"
proof -
  let ?ys = "filter (\<lambda>e. snd e \<noteq> NaN) s"
  let ?P = "\<lambda>e. snd e \<noteq> NaN \<and> (\<forall>e' \<in> set s. snd e' \<noteq> NaN \<longrightarrow> \<not> better (snd e') (snd e))"
  have reduce: "find ?P s = find ?P ?ys"
    by (rule find_filter [symmetric]) simp
  show ?thesis
  proof (cases ?ys)
    case Nil
    then have "\<forall>e \<in> set s. snd e = NaN" by (auto simp: filter_empty_conv)
    then have "find ?P s = None" by (auto simp: find_None_iff)
    with Nil show ?thesis by (simp add: scan_best_def)
  next
    case (Cons b rest)
    let ?m = "fold (\<lambda>entry best. if better (snd entry) (snd best) then entry else best) rest b"
    have ys_set: "set (b # rest) = {e \<in> set s. snd e \<noteq> NaN}"
      unfolding Cons [symmetric] by simp
    then have vals: "\<forall>e \<in> set (b # rest). snd e \<noteq> NaN"
      by blast
    have "\<exists>pre post. b # rest = pre @ ?m # post \<and>
            (\<forall>e \<in> set pre. better (snd ?m) (snd e)) \<and>
            (\<forall>e \<in> set post. \<not> better (snd e) (snd ?m))"
    proof (rule fold_best)
      show "\<not> better x x" for x by (rule irrefl)
      show "better x z" if "better x y" "better y z" for x y z using that by (rule trans)
      show "better x y \<or> x = y \<or> better y x" if "x \<noteq> NaN" "y \<noteq> NaN" for x y
        using that by (rule total)
      show "\<forall>e \<in> set (b # rest). snd e \<noteq> NaN" by (rule vals)
    qed
    then obtain pre post where split: "b # rest = pre @ ?m # post"
      and before: "\<forall>e \<in> set pre. better (snd ?m) (snd e)"
      and after: "\<forall>e \<in> set post. \<not> better (snd e) (snd ?m)"
      by blast
    have "set ?ys = set (pre @ ?m # post)"
      using Cons split by simp
    then have sety: "set ?ys = set pre \<union> {?m} \<union> set post"
      by simp
    have m_in: "?m \<in> set (b # rest)"
      by (subst split) simp
    have m_val: "snd ?m \<noteq> NaN"
      using vals m_in by blast
    have asym: "\<not> better y x" if "better x y" for x y
      using that irrefl trans by blast
    have Pm: "?P ?m"
    proof (intro conjI ballI impI)
      show "snd ?m \<noteq> NaN" by (rule m_val)
    next
      fix e' assume "e' \<in> set s" "snd e' \<noteq> NaN"
      then have "e' \<in> set ?ys" by simp
      then have "e' \<in> set pre \<or> e' = ?m \<or> e' \<in> set post" using sety by auto
      then show "\<not> better (snd e') (snd ?m)"
        using before after irrefl asym by auto
    qed
    have notP: "\<forall>e \<in> set pre. \<not> ?P e"
    proof
      fix e assume e: "e \<in> set pre"
      have "?m \<in> set s"
        using m_in ys_set by blast
      with before e m_val show "\<not> ?P e" by auto
    qed
    have "find ?P ?ys = Some ?m"
      using Cons split find_first [of pre ?P ?m post, OF notP Pm] by simp
    with reduce Cons show ?thesis by (simp add: scan_best_def)
  qed
qed

lemma idxmax_first_maximal: "idxmax s = map_option fst (find (maximal s) s)"
proof -
  have "scan_best (\<lambda>v best. fless best v) s =
          map_option fst (find (\<lambda>e. snd e \<noteq> NaN \<and> (\<forall>e' \<in> set s. snd e' \<noteq> NaN \<longrightarrow> \<not> fless (snd e) (snd e'))) s)"
    by (rule scan_best_first) (use fless_irrefl fless_trans fless_total in blast)+
  then show ?thesis by (simp add: idxmax_def maximal_def [abs_def])
qed

lemma idxmin_first_minimal: "idxmin s = map_option fst (find (minimal s) s)"
proof -
  have "scan_best (\<lambda>v best. fless v best) s =
          map_option fst (find (\<lambda>e. snd e \<noteq> NaN \<and> (\<forall>e' \<in> set s. snd e' \<noteq> NaN \<longrightarrow> \<not> fless (snd e') (snd e))) s)"
    by (rule scan_best_first) (use fless_irrefl fless_trans fless_total in blast)+
  then show ?thesis by (simp add: idxmin_def minimal_def [abs_def])
qed

lemma weekly_patterns_of_value:
  assumes "r \<in> set df" and "DayOfWeek r \<in> set day_order"
  shows "\<exists>e \<in> set (weekly_patterns_of df). snd e \<noteq> NaN"
proof -
  let ?rows = "filter (\<lambda>r'. DayOfWeek r' = DayOfWeek r) df"
  have "?rows \<noteq> []" using assms(1) by (auto simp: filter_empty_conv)
  then have "mean (map TotalSteps ?rows) \<noteq> NaN" by (simp add: mean_def)
  moreover have "(DayOfWeek r, mean (map TotalSteps ?rows)) \<in> set (weekly_patterns_of df)"
    using assms(2) by (auto simp: weekly_patterns_of_map)
  ultimately show ?thesis by force
qed

lemma scan_best_Some:
  "\<exists>e \<in> set s. snd e \<noteq> NaN \<Longrightarrow> \<exists>l. scan_best better s = Some l"
  by (auto simp: scan_best_def filter_empty_conv split: list.splits)

lemma loaded_day_in_order:
  "r \<in> set (load_and_clean_data raw) \<Longrightarrow> DayOfWeek r \<in> set day_order"
proof -
  have "day_name d \<in> set day_order" for d
  proof -
    have "nat ((d + 3) mod 7) < length day_order"
      by (simp add: length_day_order nat_less_iff)
    then have "day_order ! nat ((d + 3) mod 7) \<in> set day_order"
      by (rule nth_mem)
    then show ?thesis
      by (simp add: day_name_def day_order_def)
  qed
  then show "r \<in> set (load_and_clean_data raw) \<Longrightarrow> DayOfWeek r \<in> set day_order"
    by (auto simp: load_and_clean_data_def derive_def Let_def)
qed

text \<open>On equal means the first day wins, for the maximum and for the minimum.\<close>

lemma tie_example:
  "idxmax (weekly_patterns_of (load_and_clean_data tie_raw)) = Some ''Monday'' \<and>
   idxmin (weekly_patterns_of (load_and_clean_data tie_raw)) = Some ''Wednesday''"
  by code_simp

text \<open>
  The expression of lines 267 to 274, taken on its own and handed the weekly pattern of
  the table: for a table with a row on some day of the week, the summary written as text
  has the header and exactly six rows, named Total Records, Unique Users, Average Daily
  Steps, Average Sedentary Hours, Most Active Day and Least Active Day. Most Active Day
  is the day at the first position, counted from Monday, whose mean is maximal, and Least
  Active Day the day at the first position whose mean is minimal.
\<close>

lemma summary_df_rows:
  assumes "\<exists>r \<in> set df. DayOfWeek r \<in> set day_order"
  shows "\<exists>i j. i < 7 \<and> j < 7 \<and>
     maximal (weekly_patterns_of df) (weekly_patterns_of df ! i) \<and>
     (\<forall>k < i. \<not> maximal (weekly_patterns_of df) (weekly_patterns_of df ! k)) \<and>
     minimal (weekly_patterns_of df) (weekly_patterns_of df ! j) \<and>
     (\<forall>k < j. \<not> minimal (weekly_patterns_of df) (weekly_patterns_of df ! k)) \<and>
     map_option to_csv (summary_df fmt0 fmt1 df (weekly_patterns_of df)) =
       Some [(''Metric'', ''Value''),
             (''Total Records'', decimal (length df)),
             (''Unique Users'', decimal (nunique (map Id_col df))),
             (''Average Daily Steps'', fmt0 (mean (map TotalSteps df))),
             (''Average Sedentary Hours'', fmt1 (fdiv (mean (map SedentaryMinutes df)) 60)),
             (''Most Active Day'', day_order ! i),
             (''Least Active Day'', day_order ! j)]"
proof -
  let ?w = "weekly_patterns_of df"
  have len: "length ?w = 7"
    by (rule length_weekly_patterns_of)
  from assms have val: "\<exists>e \<in> set ?w. snd e \<noteq> NaN"
    using weekly_patterns_of_value by blast
  from val obtain a where a: "idxmax ?w = Some a"
    unfolding idxmax_def using scan_best_Some by blast
  from val obtain b where b: "idxmin ?w = Some b"
    unfolding idxmin_def using scan_best_Some by blast
  from a obtain most where "find (maximal ?w) ?w = Some most" and most: "a = fst most"
    by (auto simp: idxmax_first_maximal)
  then obtain i where i: "i < 7" "maximal ?w (?w ! i)" "most = ?w ! i"
      "\<forall>k < i. \<not> maximal ?w (?w ! k)"
    unfolding find_Some_iff len by blast
  from b obtain least where "find (minimal ?w) ?w = Some least" and least: "b = fst least"
    by (auto simp: idxmin_first_minimal)
  then obtain j where j: "j < 7" "minimal ?w (?w ! j)" "least = ?w ! j"
      "\<forall>k < j. \<not> minimal ?w (?w ! k)"
    unfolding find_Some_iff len by blast
  have "a = day_order ! i" "b = day_order ! j"
    using most least i j weekly_patterns_of_label by simp_all
  with a b have "map_option to_csv (summary_df fmt0 fmt1 df ?w) =
       Some [(''Metric'', ''Value''),
             (''Total Records'', decimal (length df)),
             (''Unique Users'', decimal (nunique (map Id_col df))),
             (''Average Daily Steps'', fmt0 (mean (map TotalSteps df))),
             (''Average Sedentary Hours'', fmt1 (fdiv (mean (map SedentaryMinutes df)) 60)),
             (''Most Active Day'', day_order ! i),
             (''Least Active Day'', day_order ! j)]"
    by (simp add: summary_df_def to_csv_def cell_text_def)
  with i j show ?thesis by blast
qed

text \<open>On the scenario, with the two formatted means as Python prints them.\<close>

lemma summary_df_rows_scenario:
  "(\<exists>r \<in> set (load_and_clean_data scenario_raw). DayOfWeek r \<in> set day_order) \<and>
   (\<exists>i j. i < 7 \<and> j < 7 \<and>
     map_option to_csv (summary_df (\<lambda>v. ''7250'') (\<lambda>v. ''21.6'') (load_and_clean_data scenario_raw)
         (weekly_patterns_of (load_and_clean_data scenario_raw))) =
       Some [(''Metric'', ''Value''),
             (''Total Records'', decimal 4),
             (''Unique Users'', decimal 2),
             (''Average Daily Steps'', ''7250''),
             (''Average Sedentary Hours'', ''21.6''),
             (''Most Active Day'', day_order ! i),
             (''Least Active Day'', day_order ! j)])"
proof -
  have hyp: "\<exists>r \<in> set (load_and_clean_data scenario_raw). DayOfWeek r \<in> set day_order"
    by (simp add: load_and_clean_data_def scenario_raw_def derive_def day_name_def day_order_def)
  have n: "length (load_and_clean_data scenario_raw) = 4"
    "nunique (map Id_col (load_and_clean_data scenario_raw)) = 2"
    by (simp_all add: load_and_clean_data_def scenario_raw_def derive_def nunique_def Let_def)
  from summary_df_rows [OF hyp, of "\<lambda>v. ''7250''" "\<lambda>v. ''21.6''"] hyp n show ?thesis
    by (auto simp del: ex_simps)
qed

lemma scenario_summary:
   "map_option to_csv (summary_df (\<lambda>v. ''7250'') (\<lambda>v. ''21.6'') (load_and_clean_data scenario_raw)
         (weekly_patterns_of (load_and_clean_data scenario_raw))) =
       Some [(''Metric'', ''Value''),
             (''Total Records'', ''4''),
             (''Unique Users'', ''2''),
             (''Average Daily Steps'', ''7250''),
             (''Average Sedentary Hours'', ''21.6''),
             (''Most Active Day'', ''Tuesday''),
             (''Least Active Day'', ''Monday'')]"
  by code_simp

section \<open>What the run exports\<close>

text \<open>On every input the run ends with the exception of \<open>analyze_data\<close> at line 87,
  before any file is written.\<close>

lemma script_writes_no_file:
  "script fmt0 fmt1 raw =
     (if raw = [] then Inl (ValueError ''NaTType does not support strftime'')
      else Inl (NameError ''classify_activity_level''), [])"
proof -
  obtain outcome df' where run: "analyze_data (load_and_clean_data raw) = (outcome, df')"
    by (cases "analyze_data (load_and_clean_data raw)")
  then have "outcome = fst (analyze_data (load_and_clean_data raw))"
    by simp
  then have "outcome =
     (if raw = [] then Inl (ValueError ''NaTType does not support strftime'')
      else Inl (NameError ''classify_activity_level''))"
    by (simp add: analyze_data_outcome load_and_clean_data_def)
  with run show ?thesis
    by (simp add: script_def)
qed

text \<open>
  C10 describes the exported summary table. On the table with equal step counts on Monday
  and Tuesday the run of the script ends at line 87 with \<open>NameError\<close>: lines 267 to 275
  are not reached and no file is written. Handed the table and its weekly pattern on
  their own, those lines give the header and the six rows of the claim, with the first of
  the tied days as Most Active Day and as Least Active Day.
\<close>

theorem script_exports_nothing:
  "script (\<lambda>v. ''5000'') (\<lambda>v. ''21.5'') tie_raw = (Inl (NameError ''classify_activity_level''), []) \<and>
   map_option to_csv
     (summary_df (\<lambda>v. ''5000'') (\<lambda>v. ''21.5'') (load_and_clean_data tie_raw)
        (weekly_patterns_of (load_and_clean_data tie_raw))) =
     Some [(''Metric'', ''Value''),
           (''Total Records'', ''4''),
           (''Unique Users'', ''1''),
           (''Average Daily Steps'', ''5000''),
           (''Average Sedentary Hours'', ''21.5''),
           (''Most Active Day'', ''Monday''),
           (''Least Active Day'', ''Wednesday'')]"
proof -
  have "tie_raw \<noteq> []"
    by (simp add: tie_raw_def)
  then have "script (\<lambda>v. ''5000'') (\<lambda>v. ''21.5'') tie_raw =
      (Inl (NameError ''classify_activity_level''), [])"
    by (simp add: script_writes_no_file)
  moreover have "map_option to_csv
     (summary_df (\<lambda>v. ''5000'') (\<lambda>v. ''21.5'') (load_and_clean_data tie_raw)
        (weekly_patterns_of (load_and_clean_data tie_raw))) =
     Some [(''Metric'', ''Value''),
           (''Total Records'', ''4''),
           (''Unique Users'', ''1''),
           (''Average Daily Steps'', ''5000''),
           (''Average Sedentary Hours'', ''21.5''),
           (''Most Active Day'', ''Monday''),
           (''Least Active Day'', ''Wednesday'')]"
    by code_simp
  ultimately show ?thesis
    by simp
qed

end
